theory Spec2Isabelle
  imports Complex_Main
begin

section \<open>Values of the Python runtime and of the document store\<close>

subsection \<open>Floats\<close>

text \<open>
  A Python \<^verbatim>\<open>float\<close> is an IEEE 754 double: a NaN, an infinity, or a sign, a
  mantissa \<open>m\<close> and an exponent \<open>e\<close> standing for \<open>m * 2 ^ e\<close> (positive and negative zero
  are \<open>m = 0\<close> with either sign). The results of the operations are in normal form:
  \<open>2 ^ 52 \<le> m < 2 ^ 53\<close> and \<open>- 1074 \<le> e \<le> 971\<close>, or \<open>m < 2 ^ 52\<close> and \<open>e = - 1074\<close>, or
  \<open>m = 0\<close> and \<open>e = 0\<close>.
\<close>

datatype pyfloat = Finite bool nat int | Infinity bool | NaN

text \<open>The number of binary digits of \<open>n\<close>.\<close>

fun bit_length :: "nat \<Rightarrow> nat" where
  "bit_length n = (if n = 0 then 0 else Suc (bit_length (n div 2)))"

declare bit_length.simps [simp del]

text \<open>
  The double nearest to \<open>m * 2 ^ e\<close>, with the given sign: the mantissa is cut to 53 binary
  digits (fewer below the normal range), a remainder of exactly one half goes to the even
  neighbour, and what rounds to \<open>2 ^ 1024\<close> or more is an infinity.
\<close>

definition round_to_double :: "bool \<Rightarrow> nat \<Rightarrow> int \<Rightarrow> pyfloat" where
  "round_to_double negative m e =
     (if m = 0 then Finite negative 0 0
      else
        (let e' = max (e + int (bit_length m) - 53) (- 1074);
             k = e' - e;
             n = (if k \<le> 0 then m * 2 ^ nat (- k)
                  else
                    (let q = m div 2 ^ nat k; r = m mod 2 ^ nat k; half = 2 ^ (nat k - 1)
                     in if r < half then q
                        else if half < r then q + 1
                        else if even q then q else q + 1))
         in if n = 2 ^ 53
            then (if 971 \<le> e' then Infinity negative else Finite negative (2 ^ 52) (e' + 1))
            else if 971 < e' then Infinity negative
            else Finite negative n e'))"

text \<open>
  \<^verbatim>\<open>float(i)\<close>, as the multiplication of an \<^verbatim>\<open>int\<close> by a \<^verbatim>\<open>float\<close> applies it.
  Python raises \<^verbatim>\<open>OverflowError\<close> where this function gives an infinity (from
  \<open>2 ^ 1024 - 2 ^ 970\<close> on). No such integer fits the 8 bytes the store allows, and the
  handlers below raise \<^verbatim>\<open>OverflowError\<close> for every quantity that does not fit, so the
  infinity is never the result of a call.
\<close>

definition py_float_of_int :: "int \<Rightarrow> pyfloat" where
  "py_float_of_int i = round_to_double (i < 0) (nat \<bar>i\<bar>) 0"

text \<open>\<^verbatim>\<open>x * y\<close> on floats: the exact product, rounded.\<close>

fun py_float_mul :: "pyfloat \<Rightarrow> pyfloat \<Rightarrow> pyfloat" where
  "py_float_mul NaN y = NaN"
| "py_float_mul x NaN = NaN"
| "py_float_mul (Infinity s) (Infinity t) = Infinity (s \<noteq> t)"
| "py_float_mul (Infinity s) (Finite t n f) = (if n = 0 then NaN else Infinity (s \<noteq> t))"
| "py_float_mul (Finite s m e) (Infinity t) = (if m = 0 then NaN else Infinity (s \<noteq> t))"
| "py_float_mul (Finite s m e) (Finite t n f) = round_to_double (s \<noteq> t) (m * n) (e + f)"

text \<open>
  \<^verbatim>\<open>x + y\<close> on floats: the exact sum, rounded; an exact sum of zero is positive zero
  unless both operands are negative.
\<close>

fun py_float_add :: "pyfloat \<Rightarrow> pyfloat \<Rightarrow> pyfloat" where
  "py_float_add NaN y = NaN"
| "py_float_add x NaN = NaN"
| "py_float_add (Infinity s) (Infinity t) = (if s = t then Infinity s else NaN)"
| "py_float_add (Infinity s) (Finite t n f) = Infinity s"
| "py_float_add (Finite s m e) (Infinity t) = Infinity t"
| "py_float_add (Finite s m e) (Finite t n f) =
     (let g = min e f;
          a = (if s then - 1 else 1) * int m * 2 ^ nat (e - g);
          b = (if t then - 1 else 1) * int n * 2 ^ nat (f - g);
          c = a + b
      in if c = 0 then Finite (s \<and> t) 0 0
         else round_to_double (c < 0) (nat \<bar>c\<bar>) g)"

text \<open>The rational number a finite float stands for (0 for the others).\<close>

definition float_value :: "pyfloat \<Rightarrow> rat" where
  "float_value x =
     (case x of
        Finite s m e \<Rightarrow>
          (if s then - 1 else 1) *
          (if 0 \<le> e then of_nat m * 2 ^ nat e else of_nat m / 2 ^ nat (- e))
      | _ \<Rightarrow> 0)"

text \<open>
  Python's \<^verbatim>\<open>sum\<close> over floats: a left fold of \<^verbatim>\<open>+\<close> that starts from the integer 0,
  which the first addition converts to a float. (For no summands the result is the integer
  0, which the pydantic models read as the float 0.0.)
\<close>

definition py_sum :: "pyfloat list \<Rightarrow> pyfloat" where
  "py_sum xs = foldl py_float_add (py_float_of_int 0) xs"

subsection \<open>Times, stored integers, exceptions\<close>

text \<open>
  A \<^verbatim>\<open>datetime\<close> is a number of microseconds since the epoch, the resolution of
  \<^verbatim>\<open>datetime.utcnow()\<close>. The store keeps a datetime in milliseconds.
\<close>

type_synonym datetime = int

definition bson_datetime :: "datetime \<Rightarrow> datetime" where
  "bson_datetime t = t div 1000 * 1000"

text \<open>The store keeps integers of at most 8 bytes; the driver raises \<^verbatim>\<open>OverflowError\<close> for others.\<close>

definition bson_int64 :: "int \<Rightarrow> bool" where
  "bson_int64 i \<longleftrightarrow> - (2 ^ 63) \<le> i \<and> i < 2 ^ 63"

text \<open>
  What a handler raises: the \<^verbatim>\<open>HTTPException(status_code, detail)\<close> of the source, or
  an exception of the runtime that the source does not catch.
\<close>

datatype py_exception = HTTPException nat string | OverflowError | ValueError

section \<open>Data model of \<^verbatim>\<open>backend/server.py\<close>\<close>

text \<open>
  The pydantic models of the source become records. Field names carry the class name as a
  prefix, since several classes share the names \<^verbatim>\<open>id\<close>, \<^verbatim>\<open>items\<close>, \<^verbatim>\<open>price\<close>.
\<close>

record User =
  User_id :: string
  User_email :: string
  User_first_name :: string
  User_last_name :: string
  User_password_hash :: string
  User_created_at :: datetime
  User_is_active :: bool

record Product =
  Product_id :: string
  Product_name :: string
  Product_description :: string
  Product_price :: pyfloat
  Product_category :: string
  Product_subcategory :: "string option"
  Product_images :: "string list"
  Product_attributes :: "(string \<times> string) list"
  Product_stock_quantity :: int
  Product_is_active :: bool
  Product_created_at :: datetime

record CartItem =
  CartItem_product_id :: string
  CartItem_quantity :: int
  CartItem_price :: pyfloat

record Cart =
  Cart_id :: string
  Cart_user_id :: string
  Cart_items :: "CartItem list"
  Cart_total_amount :: pyfloat
  Cart_created_at :: datetime
  Cart_updated_at :: datetime

record Order =
  Order_id :: string
  Order_user_id :: string
  Order_items :: "CartItem list"
  Order_total_amount :: pyfloat
  Order_status :: string
  Order_shipping_address :: "(string \<times> string) list"
  Order_payment_method :: string
  Order_created_at :: datetime


text \<open>
  The document database \<^verbatim>\<open>db\<close>: one list of documents per collection, in natural
  (insertion) order.
\<close>

record database =
  users :: "User list"
  products :: "Product list"
  carts :: "Cart list"
  orders :: "Order list"

text \<open>The documents as the store keeps them: datetimes in milliseconds.\<close>

definition bson_User :: "User \<Rightarrow> User" where
  "bson_User u = u\<lparr>User_created_at := bson_datetime (User_created_at u)\<rparr>"

definition bson_Cart :: "Cart \<Rightarrow> Cart" where
  "bson_Cart c = c\<lparr>Cart_created_at := bson_datetime (Cart_created_at c),
                    Cart_updated_at := bson_datetime (Cart_updated_at c)\<rparr>"


subsection \<open>The collection operations the handlers call\<close>

text \<open>\<^verbatim>\<open>find_one(filter)\<close>: the first document that matches, or \<^verbatim>\<open>None\<close>.\<close>

definition find_one :: "('a \<Rightarrow> bool) \<Rightarrow> 'a list \<Rightarrow> 'a option" where
  "find_one flt docs = find flt docs"

text \<open>\<^verbatim>\<open>insert_one(doc)\<close>, for a document in the form the store keeps.\<close>

definition insert_one :: "'a \<Rightarrow> 'a list \<Rightarrow> 'a list" where
  "insert_one doc docs = docs @ [doc]"

text \<open>
  \<^verbatim>\<open>update_one(filter, {"$set": ...})\<close>: the first document that matches is
  updated in place; without a match nothing changes (no upsert).
\<close>

fun update_one :: "('a \<Rightarrow> bool) \<Rightarrow> ('a \<Rightarrow> 'a) \<Rightarrow> 'a list \<Rightarrow> 'a list" where
  "update_one flt upd [] = []"
| "update_one flt upd (d # docs) =
     (if flt d then upd d # docs else d # update_one flt upd docs)"

text \<open>\<^verbatim>\<open>sum(item['quantity'] * item['price'] for item in cart_items)\<close>\<close>

definition items_total :: "CartItem list \<Rightarrow> pyfloat" where
  "items_total cart_items =
     py_sum (map (\<lambda>item. py_float_mul (py_float_of_int (CartItem_quantity item))
                                        (CartItem_price item)) cart_items)"

text \<open>Whether the store can keep the quantities of a list of line items.\<close>

definition bson_items :: "CartItem list \<Rightarrow> bool" where
  "bson_items cart_items = list_all (\<lambda>item. bson_int64 (CartItem_quantity item)) cart_items"

section \<open>Cart routes\<close>

text \<open>
  Each handler takes the database, its arguments, the resolved \<^verbatim>\<open>current_user\<close>, and
  the two values it draws from its environment: the \<^verbatim>\<open>uuid4\<close> of a document it may
  create and the clock reading \<^verbatim>\<open>utcnow\<close> (a handler that reads the clock more than
  once gets the same reading each time). It returns its response and the database after
  its writes, or the exception it raises.
\<close>

text \<open>\<^verbatim>\<open>Cart(user_id=current_user.id)\<close>\<close>

definition new_Cart :: "string \<Rightarrow> datetime \<Rightarrow> string \<Rightarrow> Cart" where
  "new_Cart uuid4 utcnow user_id =
     \<lparr>Cart_id = uuid4, Cart_user_id = user_id, Cart_items = [],
      Cart_total_amount = Finite False 0 0,
      Cart_created_at = utcnow, Cart_updated_at = utcnow\<rparr>"

text \<open>
  On first access the handler returns the object it has built, with the clock's
  microseconds, and the store keeps the document with milliseconds.
\<close>

definition get_cart :: "database \<Rightarrow> User \<Rightarrow> string \<Rightarrow> datetime \<Rightarrow> Cart \<times> database" where
  "get_cart db current_user uuid4 utcnow =
     (case find_one (\<lambda>c. Cart_user_id c = User_id current_user) (carts db) of
        None \<Rightarrow>
          (let cart_obj = new_Cart uuid4 utcnow (User_id current_user)
           in (cart_obj, db\<lparr>carts := insert_one (bson_Cart cart_obj) (carts db)\<rparr>))
      | Some cart \<Rightarrow> (cart, db))"

record AddResponse =
  message :: string
  total_items :: nat

text \<open>
  Lines 229-244: the loop finds the first line item of the product; the found item is
  the dictionary inside \<^verbatim>\<open>cart_items\<close>, so \<^verbatim>\<open>+=\<close> changes that element of the list.
\<close>

definition merge_item :: "string \<Rightarrow> int \<Rightarrow> pyfloat \<Rightarrow> CartItem list \<Rightarrow> CartItem list" where
  "merge_item product_id quantity price cart_items =
     (case find (\<lambda>item. CartItem_product_id item = product_id) cart_items of
        Some existing_item \<Rightarrow>
          update_one (\<lambda>item. CartItem_product_id item = product_id)
            (\<lambda>item. item\<lparr>CartItem_quantity := CartItem_quantity item + quantity\<rparr>) cart_items
      | None \<Rightarrow>
          cart_items @ [\<lparr>CartItem_product_id = product_id, CartItem_quantity = quantity,
                         CartItem_price = price\<rparr>])"

text \<open>
  A raised exception comes with the database as the writes before it left it: the cart
  created on the way stays when the total or the update raises \<^verbatim>\<open>OverflowError\<close>.
\<close>

definition add_to_cart ::
  "database \<Rightarrow> string \<Rightarrow> int \<Rightarrow> User \<Rightarrow> string \<Rightarrow> datetime
    \<Rightarrow> (py_exception \<times> database) + (AddResponse \<times> database)" where
  "add_to_cart db product_id quantity current_user uuid4 utcnow =
     (case find_one (\<lambda>p. Product_id p = product_id \<and> Product_is_active p) (products db) of
        None \<Rightarrow> Inl (HTTPException 404 ''Product not found'', db)
      | Some product \<Rightarrow>
          (let (cart, db1) =
                 (case find_one (\<lambda>c. Cart_user_id c = User_id current_user) (carts db) of
                    None \<Rightarrow>
                      (let cart_obj = new_Cart uuid4 utcnow (User_id current_user)
                       in (cart_obj, db\<lparr>carts := insert_one (bson_Cart cart_obj) (carts db)\<rparr>))
                  | Some cart \<Rightarrow> (cart, db));
               cart_items = merge_item product_id quantity (Product_price product) (Cart_items cart);
               total = items_total cart_items
           in if \<not> bson_items cart_items then Inl (OverflowError, db1)
              else
                (let db2 = db1\<lparr>carts :=
                             update_one (\<lambda>c. Cart_user_id c = User_id current_user)
                               (\<lambda>c. c\<lparr>Cart_items := cart_items, Cart_total_amount := total,
                                       Cart_updated_at := bson_datetime utcnow\<rparr>)
                               (carts db1)\<rparr>
                 in Inr (\<lparr>message = ''Item added to cart'', total_items = length cart_items\<rparr>,
                         db2))))"

definition remove_from_cart ::
  "database \<Rightarrow> string \<Rightarrow> User \<Rightarrow> datetime \<Rightarrow> py_exception + (string \<times> database)" where
  "remove_from_cart db product_id current_user utcnow =
     (case find_one (\<lambda>c. Cart_user_id c = User_id current_user) (carts db) of
        None \<Rightarrow> Inl (HTTPException 404 ''Cart not found'')
      | Some cart \<Rightarrow>
          (let cart_items = filter (\<lambda>item. CartItem_product_id item \<noteq> product_id) (Cart_items cart);
               total = items_total cart_items;
               db1 = db\<lparr>carts :=
                       update_one (\<lambda>c. Cart_user_id c = User_id current_user)
                         (\<lambda>c. c\<lparr>Cart_items := cart_items, Cart_total_amount := total,
                                 Cart_updated_at := bson_datetime utcnow\<rparr>)
                         (carts db)\<rparr>
           in Inr (''Item removed from cart'', db1)))"

section \<open>Order routes\<close>


definition get_order :: "database \<Rightarrow> string \<Rightarrow> User \<Rightarrow> py_exception + Order" where
  "get_order db order_id current_user =
     (case find_one (\<lambda>ord. Order_id ord = order_id \<and> Order_user_id ord = User_id current_user)
             (orders db) of
        None \<Rightarrow> Inl (HTTPException 404 ''Order not found'')
      | Some ord \<Rightarrow> Inr ord)"

section \<open>Authentication\<close>

record UserCreate =
  UserCreate_email :: string
  UserCreate_first_name :: string
  UserCreate_last_name :: string
  UserCreate_password :: string

record UserLogin =
  UserLogin_email :: string
  UserLogin_password :: string

record UserResponse =
  UserResponse_id :: string
  UserResponse_email :: string
  UserResponse_first_name :: string
  UserResponse_last_name :: string
  UserResponse_created_at :: datetime
  UserResponse_is_active :: bool

text \<open>\<^verbatim>\<open>UserResponse(**user)\<close>: the fields of the response model are copied, the rest is dropped.\<close>

definition UserResponse_of :: "User \<Rightarrow> UserResponse" where
  "UserResponse_of user =
     \<lparr>UserResponse_id = User_id user, UserResponse_email = User_email user,
      UserResponse_first_name = User_first_name user,
      UserResponse_last_name = User_last_name user,
      UserResponse_created_at = User_created_at user,
      UserResponse_is_active = User_is_active user\<rparr>"

subsection \<open>The calls into bcrypt\<close>

text \<open>
  A string is its UTF-8 bytes. \<^verbatim>\<open>bcrypt.hashpw\<close> raises \<^verbatim>\<open>ValueError\<close> for a password
  of more than 72 bytes and for a salt that is not a salt; its result starts with the 29
  bytes of the salt. The digest that follows is modelled by the password itself: all that
  is used of it is that the same salt and password give the same hash and different
  passwords give different ones. \<^verbatim>\<open>bcrypt.checkpw\<close> hashes the password with the salt
  found in the stored hash and compares.
\<close>

definition bcrypt_hashpw :: "string \<Rightarrow> string \<Rightarrow> py_exception + string" where
  "bcrypt_hashpw password salt =
     (if 72 < length password then Inl ValueError
      else if length salt < 29 \<or> take 4 salt \<noteq> ''$2b$'' then Inl ValueError
      else Inr (take 29 salt @ password))"

definition bcrypt_checkpw :: "string \<Rightarrow> string \<Rightarrow> py_exception + bool" where
  "bcrypt_checkpw password hashed_password =
     (case bcrypt_hashpw password hashed_password of
        Inl e \<Rightarrow> Inl e
      | Inr ret \<Rightarrow> Inr (ret = hashed_password))"

text \<open>Lines 119-123; \<open>gensalt\<close> is the salt that \<^verbatim>\<open>bcrypt.gensalt()\<close> draws.\<close>

definition hash_password :: "string \<Rightarrow> string \<Rightarrow> py_exception + string" where
  "hash_password gensalt password = bcrypt_hashpw password gensalt"

definition verify_password :: "string \<Rightarrow> string \<Rightarrow> py_exception + bool" where
  "verify_password password hashed = bcrypt_checkpw password hashed"

subsection \<open>The calls into PyJWT\<close>

text \<open>
  \<^verbatim>\<open>jwt.encode\<close> and \<^verbatim>\<open>jwt.decode\<close> are modelled symbolically: a bearer credential is
  either a string that is no HS256 token at all, or a token that carries a payload and a
  signature made with some key; a signature verifies under a key exactly when it was made
  with that key. A registered claim of the payload is missing, present with a value of its
  type, or present with a value of another type (\<open>claim_aud\<close> tells whether an audience is
  present). Time claims are in whole seconds. \<^verbatim>\<open>jwt.decode\<close> is called with the key and
  the algorithm list alone, so it verifies the signature and then, of the claims that are
  present: that \<^verbatim>\<open>iat\<close> and \<^verbatim>\<open>nbf\<close> are not after the current time, that
  \<^verbatim>\<open>exp\<close> is after it, that there is no audience, and that \<^verbatim>\<open>sub\<close> and \<^verbatim>\<open>jti\<close>
  are strings. It requires no claim to be present.
\<close>

datatype 'a jwt_claim = Missing | Claim 'a | Illtyped

record jwt_payload =
  claim_sub :: "string jwt_claim"
  claim_exp :: "int jwt_claim"
  claim_nbf :: "int jwt_claim"
  claim_iat :: "int jwt_claim"
  claim_aud :: bool
  claim_jti :: "string jwt_claim"

datatype token = Unparseable string | HS256 string jwt_payload

datatype PyJWTError =
    DecodeError | InvalidSignatureError | ExpiredSignatureError | ImmatureSignatureError
  | InvalidIssuedAtError | InvalidAudienceError | InvalidSubjectError | InvalidJTIError

definition jwt_encode :: "jwt_payload \<Rightarrow> string \<Rightarrow> token" where
  "jwt_encode payload key = HS256 key payload"

text \<open>A time claim that is present and after the current time; one that is present and not after it.\<close>

fun in_future :: "int jwt_claim \<Rightarrow> datetime \<Rightarrow> bool" where
  "in_future (Claim t) now = (now < t * 1000000)"
| "in_future _ now = False"

fun in_past :: "int jwt_claim \<Rightarrow> datetime \<Rightarrow> bool" where
  "in_past (Claim t) now = (t * 1000000 \<le> now)"
| "in_past _ now = False"

definition jwt_decode :: "token \<Rightarrow> string \<Rightarrow> datetime \<Rightarrow> PyJWTError + jwt_payload" where
  "jwt_decode tok key now =
     (case tok of
        Unparseable _ \<Rightarrow> Inl DecodeError
      | HS256 signing_key payload \<Rightarrow>
          if signing_key \<noteq> key then Inl InvalidSignatureError
          else if claim_iat payload = Illtyped then Inl InvalidIssuedAtError
          else if in_future (claim_iat payload) now then Inl ImmatureSignatureError
          else if claim_nbf payload = Illtyped then Inl DecodeError
          else if in_future (claim_nbf payload) now then Inl ImmatureSignatureError
          else if claim_exp payload = Illtyped then Inl DecodeError
          else if in_past (claim_exp payload) now then Inl ExpiredSignatureError
          else if claim_aud payload then Inl InvalidAudienceError
          else if claim_sub payload = Illtyped then Inl InvalidSubjectError
          else if claim_jti payload = Illtyped then Inl InvalidJTIError
          else Inr payload)"

subsection \<open>Utility functions and auth routes\<close>

definition ACCESS_TOKEN_EXPIRE_HOURS :: int where
  "ACCESS_TOKEN_EXPIRE_HOURS = 24"

text \<open>
  \<^verbatim>\<open>JWT_SECRET\<close> is read from the environment once at start; the functions take it as
  a parameter. \<open>data\<close> is the payload before the expiry is added;
  \<^verbatim>\<open>jwt.encode\<close> stores the \<^verbatim>\<open>datetime\<close> it is given for \<^verbatim>\<open>exp\<close> in whole seconds.
\<close>

definition create_access_token :: "string \<Rightarrow> jwt_payload \<Rightarrow> datetime \<Rightarrow> token" where
  "create_access_token JWT_SECRET data utcnow =
     (let expire = utcnow + ACCESS_TOKEN_EXPIRE_HOURS * 3600 * 1000000;
          to_encode = data\<lparr>claim_exp := Claim (expire div 1000000)\<rparr>
      in jwt_encode to_encode JWT_SECRET)"

definition get_current_user ::
  "string \<Rightarrow> database \<Rightarrow> token \<Rightarrow> datetime \<Rightarrow> py_exception + User" where
  "get_current_user JWT_SECRET db credentials now =
     (case jwt_decode credentials JWT_SECRET now of
        Inl _ \<Rightarrow> Inl (HTTPException 401 ''Invalid token'')
      | Inr payload \<Rightarrow>
          (case claim_sub payload of
             Claim user_id \<Rightarrow>
               (case find_one (\<lambda>u. User_id u = user_id) (users db) of
                  None \<Rightarrow> Inl (HTTPException 404 ''User not found'')
                | Some user \<Rightarrow> Inr user)
           | _ \<Rightarrow> Inl (HTTPException 401 ''Invalid token'')))"

text \<open>
  \<^verbatim>\<open>validate_email\<close> (email_validator) is library code: \<open>register\<close> takes it as a
  parameter, true when the library accepts the address. The handler returns the view of
  the object it has built; the store keeps the account with milliseconds.
\<close>

definition register ::
  "(string \<Rightarrow> bool) \<Rightarrow> database \<Rightarrow> UserCreate \<Rightarrow> string \<Rightarrow> datetime \<Rightarrow> string
    \<Rightarrow> py_exception + (UserResponse \<times> database)" where
  "register validate_email db user_data uuid4 utcnow gensalt =
     (if \<not> validate_email (UserCreate_email user_data)
      then Inl (HTTPException 400 ''Invalid email format'')
      else
        (case find_one (\<lambda>u. User_email u = UserCreate_email user_data) (users db) of
           Some existing_user \<Rightarrow> Inl (HTTPException 400 ''Email already registered'')
         | None \<Rightarrow>
             (case hash_password gensalt (UserCreate_password user_data) of
                Inl e \<Rightarrow> Inl e
              | Inr password_hash \<Rightarrow>
                  (let user_obj =
                         \<lparr>User_id = uuid4, User_email = UserCreate_email user_data,
                          User_first_name = UserCreate_first_name user_data,
                          User_last_name = UserCreate_last_name user_data,
                          User_password_hash = password_hash,
                          User_created_at = utcnow, User_is_active = True\<rparr>
                   in Inr (UserResponse_of user_obj,
                           db\<lparr>users := insert_one (bson_User user_obj) (users db)\<rparr>)))))"

record LoginResponse =
  LoginResponse_access_token :: token
  LoginResponse_token_type :: string
  LoginResponse_user :: UserResponse

text \<open>
  Line 171: \<^verbatim>\<open>or\<close> evaluates \<^verbatim>\<open>verify_password\<close> only when an account was found; what
  it raises is not caught.
\<close>

definition login ::
  "string \<Rightarrow> database \<Rightarrow> UserLogin \<Rightarrow> datetime \<Rightarrow> py_exception + LoginResponse" where
  "login JWT_SECRET db user_data utcnow =
     (case find_one (\<lambda>u. User_email u = UserLogin_email user_data) (users db) of
        None \<Rightarrow> Inl (HTTPException 401 ''Invalid email or password'')
      | Some user \<Rightarrow>
          (case verify_password (UserLogin_password user_data) (User_password_hash user) of
             Inl e \<Rightarrow> Inl e
           | Inr verified \<Rightarrow>
               if \<not> verified then Inl (HTTPException 401 ''Invalid email or password'')
               else
                 (let access_token =
                        create_access_token JWT_SECRET
                          \<lparr>claim_sub = Claim (User_id user), claim_exp = Missing,
                           claim_nbf = Missing, claim_iat = Missing, claim_aud = False,
                           claim_jti = Missing\<rparr> utcnow
                  in Inr \<lparr>LoginResponse_access_token = access_token,
                          LoginResponse_token_type = ''bearer'',
                          LoginResponse_user = UserResponse_of user\<rparr>)))"

section \<open>The cart invariant\<close>


section \<open>Concrete inputs\<close>

text \<open>The doubles that Python prints as 89.99, 449.95, 269.96999999999997, 1e16 and 1.0.\<close>

definition f_89_99 :: pyfloat where
  "f_89_99 = Finite False 6332483288547983 (- 46)"

definition f_449_95 :: pyfloat where
  "f_449_95 = Finite False 7915604110684979 (- 44)"

definition f_269_97 :: pyfloat where
  "f_269_97 = Finite False 4749362466410987 (- 44)"

definition f_1e16 :: pyfloat where
  "f_1e16 = Finite False 5000000000000000 1"

definition f_1 :: pyfloat where
  "f_1 = Finite False 4503599627370496 (- 52)"

definition alice :: User where
  "alice = \<lparr>User_id = ''u-alice'', User_email = ''alice@example.com'',
            User_first_name = ''Alice'', User_last_name = ''Doe'',
            User_password_hash = ''$2b$12$abcdefghijklmnopqrstuvtestpass123'',
            User_created_at = 1000000, User_is_active = True\<rparr>"

definition bob :: User where
  "bob = \<lparr>User_id = ''u-bob'', User_email = ''bob@example.com'',
          User_first_name = ''Bob'', User_last_name = ''Roe'',
          User_password_hash = ''$2b$12$ABCDEFGHIJKLMNOPQRSTUVhunter2'',
          User_created_at = 1001000, User_is_active = True\<rparr>"

definition wig :: Product where
  "wig = \<lparr>Product_id = ''p-wig'', Product_name = ''Colorful Wig Collection'',
          Product_description = ''Fun and vibrant colored wigs'', Product_price = f_89_99,
          Product_category = ''wigs'', Product_subcategory = Some ''synthetic'',
          Product_images = [], Product_attributes = [(''color'', ''Various'')],
          Product_stock_quantity = 40, Product_is_active = True, Product_created_at = 900000\<rparr>"

definition wig_line :: "int \<Rightarrow> CartItem" where
  "wig_line n = \<lparr>CartItem_product_id = ''p-wig'', CartItem_quantity = n,
                 CartItem_price = f_89_99\<rparr>"

definition alice_cart :: Cart where
  "alice_cart = \<lparr>Cart_id = ''c-alice'', Cart_user_id = ''u-alice'', Cart_items = [wig_line 3],
                 Cart_total_amount = f_269_97, Cart_created_at = 1100000,
                 Cart_updated_at = 1200000\<rparr>"

definition alice_order :: Order where
  "alice_order = \<lparr>Order_id = ''o-1'', Order_user_id = ''u-alice'', Order_items = [wig_line 3],
                  Order_total_amount = f_269_97, Order_status = ''pending'',
                  Order_shipping_address = [(''city'', ''Lome'')],
                  Order_payment_method = ''card'', Order_created_at = 1300000\<rparr>"

definition shop_db :: database where
  "shop_db = \<lparr>users = [alice, bob], products = [wig], carts = [alice_cart],
              orders = [alice_order]\<rparr>"

definition fresh_db :: database where
  "fresh_db = \<lparr>users = [alice, bob], products = [wig], carts = [], orders = []\<rparr>"

definition toy_validate_email :: "string \<Rightarrow> bool" where
  "toy_validate_email email \<longleftrightarrow> CHR ''@'' \<in> set email"

definition john_data :: UserCreate where
  "john_data = \<lparr>UserCreate_email = ''testuser@example.com'', UserCreate_first_name = ''John'',
                UserCreate_last_name = ''Doe'', UserCreate_password = ''testpass123''\<rparr>"

definition john_salt :: string where
  "john_salt = ''$2b$12$0123456789012345678901''"

definition john :: User where
  "john = \<lparr>User_id = ''u-john'', User_email = ''testuser@example.com'',
           User_first_name = ''John'', User_last_name = ''Doe'',
           User_password_hash = ''$2b$12$0123456789012345678901testpass123'',
           User_created_at = 5000123, User_is_active = True\<rparr>"

text \<open>A password of 73 bytes.\<close>

definition long_password :: string where
  "long_password = replicate 73 CHR ''x''"

section \<open>Evaluating the float operations\<close>

lemma bit_length_0 [simp]: "bit_length 0 = 0"
  by (simp add: bit_length.simps)

lemma bit_length_1 [simp]: "bit_length (Suc 0) = Suc 0"
  by (simp add: bit_length.simps)

lemma bit_length_numeral [simp]:
  "bit_length (numeral k) = Suc (bit_length (numeral k div 2))"
  by (subst bit_length.simps) simp

lemmas float_eval = py_float_of_int_def round_to_double_def py_sum_def items_total_def Let_def

lemma py_float_of_int_0 [simp]: "py_float_of_int 0 = Finite False 0 0"
  by (simp add: float_eval)

lemma items_total_Nil [simp]: "items_total [] = Finite False 0 0"
  by (simp add: items_total_def py_sum_def)

lemma items_total_single:
  "items_total [item] =
     py_float_add (Finite False 0 0)
       (py_float_mul (py_float_of_int (CartItem_quantity item)) (CartItem_price item))"
  by (simp add: items_total_def py_sum_def)

section \<open>Facts about the collection operations\<close>

lemma find_one_update_one:
  assumes "\<And>d. flt d \<Longrightarrow> flt (upd d)"
  shows "find_one flt (update_one flt upd docs) = map_option upd (find_one flt docs)"
  using assms by (induction docs) (simp_all add: find_one_def)

lemma update_one_cong_first:
  "find_one flt docs = Some d \<Longrightarrow> upd d = upd' d \<Longrightarrow> update_one flt upd docs = update_one flt upd' docs"
  by (induction docs) (auto simp: find_one_def split: if_splits)

lemma find_one_insert_one_fresh:
  "find_one flt docs = None \<Longrightarrow> flt d \<Longrightarrow> find_one flt (insert_one d docs) = Some d"
  by (induction docs) (simp_all add: find_one_def insert_one_def split: if_splits)

lemma update_one_insert_one_fresh:
  "find_one flt docs = None \<Longrightarrow> flt d \<Longrightarrow> update_one flt upd (insert_one d docs) = docs @ [upd d]"
  by (induction docs) (simp_all add: find_one_def insert_one_def split: if_splits)


lemma find_one_Some_D: "find_one flt docs = Some d \<Longrightarrow> d \<in> set docs \<and> flt d"
  by (auto simp: find_one_def find_Some_iff)

lemma find_one_None_iff: "find_one flt docs = None \<longleftrightarrow> (\<forall>d\<in>set docs. \<not> flt d)"
  by (auto simp: find_one_def find_None_iff)

lemma map_key_update_one:
  "(\<And>d. key (upd d) = key d) \<Longrightarrow> map key (update_one flt upd docs) = map key docs"
  by (induction docs) simp_all

lemma product_ids_merge_item_present:
  "find (\<lambda>item. CartItem_product_id item = p) cart_items = Some i \<Longrightarrow>
   map CartItem_product_id (merge_item p q pr cart_items) = map CartItem_product_id cart_items"
  by (simp add: merge_item_def map_key_update_one)

lemma product_ids_merge_item_absent:
  "find (\<lambda>item. CartItem_product_id item = p) cart_items = None \<Longrightarrow>
   map CartItem_product_id (merge_item p q pr cart_items) = map CartItem_product_id cart_items @ [p]"
  by (simp add: merge_item_def)

lemma distinct_merge_item:
  "distinct (map CartItem_product_id cart_items) \<Longrightarrow>
   distinct (map CartItem_product_id (merge_item p q pr cart_items))"
proof (cases "find (\<lambda>item. CartItem_product_id item = p) cart_items")
  case None
  then have "p \<notin> CartItem_product_id ` set cart_items"
    by (auto simp: find_None_iff)
  with None show "distinct (map CartItem_product_id cart_items) \<Longrightarrow> ?thesis"
    by (simp add: product_ids_merge_item_absent)
next
  case (Some i)
  then show "distinct (map CartItem_product_id cart_items) \<Longrightarrow> ?thesis"
    by (simp add: product_ids_merge_item_present)
qed

lemma bson_Cart_user_id [simp]: "Cart_user_id (bson_Cart c) = Cart_user_id c"
  by (simp add: bson_Cart_def)

lemma bson_Cart_items [simp]: "Cart_items (bson_Cart c) = Cart_items c"
  by (simp add: bson_Cart_def)

lemma bson_Cart_total [simp]: "Cart_total_amount (bson_Cart c) = Cart_total_amount c"
  by (simp add: bson_Cart_def)

lemma bson_datetime_idem [simp]: "bson_datetime (bson_datetime t) = bson_datetime t"
  by (simp add: bson_datetime_def)

lemma bson_Cart_idem [simp]: "bson_Cart (bson_Cart c) = bson_Cart c"
  by (simp add: bson_Cart_def)

section \<open>Cart: lazy creation\<close>

text \<open>
  C9, as amended. For every account, \<open>get_cart\<close> returns a cart (its result type has no
  error) that belongs to the account. A cart stored for the account is returned as it is
  stored and the database stays as it is. Without a stored cart the handler persists an
  empty one (no items, total 0.0) and returns the object it built, with the microseconds
  of the clock, while the stored cart has milliseconds. A second call on the resulting
  database, whatever identifier and clock reading it is offered, returns the stored cart
  and leaves the database as it is.
\<close>

theorem get_cart_returns_stored_cart:
  "(\<forall>cart. find_one (\<lambda>c. Cart_user_id c = User_id u) (carts db) = Some cart
       \<longrightarrow> get_cart db u uuid utcnow = (cart, db))
   \<and> (find_one (\<lambda>c. Cart_user_id c = User_id u) (carts db) = None \<longrightarrow>
        get_cart db u uuid utcnow =
          (new_Cart uuid utcnow (User_id u),
           db\<lparr>carts := carts db @ [bson_Cart (new_Cart uuid utcnow (User_id u))]\<rparr>)
        \<and> Cart_items (fst (get_cart db u uuid utcnow)) = []
        \<and> Cart_total_amount (fst (get_cart db u uuid utcnow)) = Finite False 0 0)
   \<and> Cart_user_id (fst (get_cart db u uuid utcnow)) = User_id u
   \<and> find_one (\<lambda>c. Cart_user_id c = User_id u) (carts (snd (get_cart db u uuid utcnow)))
        = Some (if find_one (\<lambda>c. Cart_user_id c = User_id u) (carts db) = None
                then bson_Cart (fst (get_cart db u uuid utcnow))
                else fst (get_cart db u uuid utcnow))
   \<and> get_cart (snd (get_cart db u uuid utcnow)) u uuid' utcnow'
        = (if find_one (\<lambda>c. Cart_user_id c = User_id u) (carts db) = None
           then bson_Cart (fst (get_cart db u uuid utcnow))
           else fst (get_cart db u uuid utcnow),
           snd (get_cart db u uuid utcnow))"
proof (cases "find_one (\<lambda>c. Cart_user_id c = User_id u) (carts db)")
  case None
  let ?c = "new_Cart uuid utcnow (User_id u)"
  have own: "Cart_user_id (bson_Cart ?c) = User_id u" by (simp add: new_Cart_def)
  have r: "get_cart db u uuid utcnow = (?c, db\<lparr>carts := carts db @ [bson_Cart ?c]\<rparr>)"
    using None by (simp add: get_cart_def insert_one_def Let_def)
  have f: "find_one (\<lambda>c. Cart_user_id c = User_id u) (carts db @ [bson_Cart ?c])
             = Some (bson_Cart ?c)"
    using find_one_insert_one_fresh [OF None, of "bson_Cart ?c"] own
    by (simp add: insert_one_def)
  have again: "get_cart (db\<lparr>carts := carts db @ [bson_Cart ?c]\<rparr>) u uuid' utcnow'
                 = (bson_Cart ?c, db\<lparr>carts := carts db @ [bson_Cart ?c]\<rparr>)"
    using f by (simp add: get_cart_def)
  have e: "Cart_items ?c = []" "Cart_total_amount ?c = Finite False 0 0"
    "Cart_user_id ?c = User_id u"
    by (simp_all add: new_Cart_def)
  show ?thesis unfolding r using None f again e by simp
next
  case (Some cart)
  then have "Cart_user_id cart = User_id u" by (auto dest: find_one_Some_D)
  with Some show ?thesis by (simp add: get_cart_def)
qed

theorem get_cart_returns_stored_cart_witness:
  "find_one (\<lambda>c. Cart_user_id c = User_id alice) (carts fresh_db) = None
   \<and> get_cart fresh_db alice ''c-1'' 5000123
       = (new_Cart ''c-1'' 5000123 ''u-alice'',
          fresh_db\<lparr>carts := [new_Cart ''c-1'' 5000000 ''u-alice'']\<rparr>)
   \<and> get_cart (snd (get_cart fresh_db alice ''c-1'' 5000123)) alice ''c-2'' 6000456
       = (new_Cart ''c-1'' 5000000 ''u-alice'',
          fresh_db\<lparr>carts := [new_Cart ''c-1'' 5000000 ''u-alice'']\<rparr>)
   \<and> find_one (\<lambda>c. Cart_user_id c = User_id alice) (carts shop_db) = Some alice_cart
   \<and> get_cart shop_db alice ''c-1'' 5000123 = (alice_cart, shop_db)"
proof -
  have n: "find_one (\<lambda>c. Cart_user_id c = User_id alice) (carts fresh_db) = None"
    by (simp add: find_one_def fresh_db_def)
  have s: "find_one (\<lambda>c. Cart_user_id c = User_id alice) (carts shop_db) = Some alice_cart"
    by (simp add: find_one_def shop_db_def alice_cart_def alice_def)
  have uid: "User_id alice = ''u-alice''" by (simp add: alice_def)
  have bb: "bson_Cart (new_Cart ''c-1'' 5000123 ''u-alice'') = new_Cart ''c-1'' 5000000 ''u-alice''"
    by (simp add: bson_Cart_def new_Cart_def bson_datetime_def)
  have cf: "carts fresh_db = []" by (simp add: fresh_db_def)
  note th = get_cart_returns_stored_cart [of alice fresh_db "''c-1''" 5000123 "''c-2''" 6000456]
  have first: "get_cart fresh_db alice ''c-1'' 5000123
       = (new_Cart ''c-1'' 5000123 ''u-alice'',
          fresh_db\<lparr>carts := [new_Cart ''c-1'' 5000000 ''u-alice'']\<rparr>)"
    using th [THEN conjunct2, THEN conjunct1] n by (simp add: uid bb cf)
  have second: "get_cart (snd (get_cart fresh_db alice ''c-1'' 5000123)) alice ''c-2'' 6000456
       = (new_Cart ''c-1'' 5000000 ''u-alice'',
          fresh_db\<lparr>carts := [new_Cart ''c-1'' 5000000 ''u-alice'']\<rparr>)"
    using th [THEN conjunct2, THEN conjunct2, THEN conjunct2, THEN conjunct2] n
    by (simp add: first bb)
  have stored: "get_cart shop_db alice ''c-1'' 5000123 = (alice_cart, shop_db)"
    using get_cart_returns_stored_cart [of alice shop_db "''c-1''" 5000123] s by blast
  show ?thesis
    using n first second s stored by (intro conjI) assumption+
qed

text \<open>
  C9 as stated (the second call returns the same cart) fails: the first call at 5000123
  microseconds returns a cart with that time, the second returns the stored cart, whose
  times are 5000000.
\<close>

theorem get_cart_second_call_differs_counterexample:
  "fst (get_cart fresh_db alice ''c-1'' 5000123) = new_Cart ''c-1'' 5000123 ''u-alice''
   \<and> fst (get_cart (snd (get_cart fresh_db alice ''c-1'' 5000123)) alice ''c-2'' 6000456)
       = new_Cart ''c-1'' 5000000 ''u-alice''
   \<and> Cart_created_at (new_Cart ''c-1'' 5000123 ''u-alice'')
       \<noteq> Cart_created_at (new_Cart ''c-1'' 5000000 ''u-alice'')"
  by (simp add: get_cart_def find_one_def insert_one_def bson_Cart_def bson_datetime_def
        new_Cart_def Let_def fresh_db_def alice_def)

section \<open>Cart: removing a product that is not in the cart\<close>

text \<open>
  C8, as amended. When the account has a cart and the product is in none of its line items,
  \<open>remove_from_cart\<close> succeeds with its message and rewrites only the account's cart:
  the items are the items it had, the total is recomputed from them, and \<open>updated_at\<close>
  becomes the clock reading of the call, as the store keeps it. When the stored total was
  the total of the items already, \<open>updated_at\<close> is the only field that changes.
\<close>

theorem remove_absent_only_touches_updated_at:
  assumes "find_one (\<lambda>c. Cart_user_id c = User_id u) (carts db) = Some cart"
      and "product_id \<notin> CartItem_product_id ` set (Cart_items cart)"
  shows "remove_from_cart db product_id u utcnow =
           Inr (''Item removed from cart'',
                db\<lparr>carts := update_one (\<lambda>c. Cart_user_id c = User_id u)
                        (\<lambda>c. c\<lparr>Cart_total_amount := items_total (Cart_items c),
                                Cart_updated_at := bson_datetime utcnow\<rparr>) (carts db)\<rparr>)
         \<and> (Cart_total_amount cart = items_total (Cart_items cart) \<longrightarrow>
              remove_from_cart db product_id u utcnow =
                Inr (''Item removed from cart'',
                     db\<lparr>carts := update_one (\<lambda>c. Cart_user_id c = User_id u)
                             (\<lambda>c. c\<lparr>Cart_updated_at := bson_datetime utcnow\<rparr>) (carts db)\<rparr>))"
proof -
  have keep: "filter (\<lambda>item. CartItem_product_id item \<noteq> product_id) (Cart_items cart) = Cart_items cart"
    using assms(2) by (auto simp: filter_id_conv)
  have r: "remove_from_cart db product_id u utcnow =
           Inr (''Item removed from cart'',
                db\<lparr>carts := update_one (\<lambda>c. Cart_user_id c = User_id u)
                        (\<lambda>c. c\<lparr>Cart_items := Cart_items cart,
                                Cart_total_amount := items_total (Cart_items cart),
                                Cart_updated_at := bson_datetime utcnow\<rparr>) (carts db)\<rparr>)"
    using assms(1) keep by (simp add: remove_from_cart_def Let_def)
  have e1: "update_one (\<lambda>c. Cart_user_id c = User_id u)
              (\<lambda>c. c\<lparr>Cart_items := Cart_items cart,
                      Cart_total_amount := items_total (Cart_items cart),
                      Cart_updated_at := bson_datetime utcnow\<rparr>) (carts db)
          = update_one (\<lambda>c. Cart_user_id c = User_id u)
              (\<lambda>c. c\<lparr>Cart_total_amount := items_total (Cart_items c),
                      Cart_updated_at := bson_datetime utcnow\<rparr>) (carts db)"
    by (rule update_one_cong_first [OF assms(1)]) simp
  have e2: "Cart_total_amount cart = items_total (Cart_items cart) \<Longrightarrow>
            update_one (\<lambda>c. Cart_user_id c = User_id u)
              (\<lambda>c. c\<lparr>Cart_items := Cart_items cart,
                      Cart_total_amount := items_total (Cart_items cart),
                      Cart_updated_at := bson_datetime utcnow\<rparr>) (carts db)
          = update_one (\<lambda>c. Cart_user_id c = User_id u)
              (\<lambda>c. c\<lparr>Cart_updated_at := bson_datetime utcnow\<rparr>) (carts db)"
    by (rule update_one_cong_first [OF assms(1)]) simp
  show ?thesis using r e1 e2 by simp
qed

text \<open>
  C8 as stated (every field of the cart keeps its value) fails: the cart of \<open>alice\<close> holds
  only \<open>p-wig\<close>, was last updated at 1200000, and removing \<open>p-other\<close> at 5000123 stores a
  cart that differs from it in \<open>updated_at\<close>.
\<close>

theorem remove_absent_changes_updated_at_counterexample:
  "carts shop_db = [alice_cart]
   \<and> Cart_user_id alice_cart = User_id alice
   \<and> map CartItem_product_id (Cart_items alice_cart) = [''p-wig'']
   \<and> Cart_updated_at alice_cart = 1200000
   \<and> remove_from_cart shop_db ''p-other'' alice 5000123
       = Inr (''Item removed from cart'',
              shop_db\<lparr>carts := [alice_cart\<lparr>Cart_updated_at := 5000000\<rparr>]\<rparr>)
   \<and> alice_cart\<lparr>Cart_updated_at := 5000000\<rparr> \<noteq> alice_cart"
  by (simp add: remove_from_cart_def find_one_def float_eval bson_datetime_def
        shop_db_def alice_cart_def alice_def wig_line_def f_89_99_def f_269_97_def)

theorem remove_absent_only_touches_updated_at_witness:
  "find_one (\<lambda>c. Cart_user_id c = User_id alice) (carts shop_db) = Some alice_cart
   \<and> ''p-other'' \<notin> CartItem_product_id ` set (Cart_items alice_cart)
   \<and> Cart_total_amount alice_cart = items_total (Cart_items alice_cart)
   \<and> remove_from_cart shop_db ''p-other'' alice 5000123 =
       Inr (''Item removed from cart'',
            shop_db\<lparr>carts := update_one (\<lambda>c. Cart_user_id c = User_id alice)
                    (\<lambda>c. c\<lparr>Cart_updated_at := bson_datetime 5000123\<rparr>) (carts shop_db)\<rparr>)"
proof -
  have h1: "find_one (\<lambda>c. Cart_user_id c = User_id alice) (carts shop_db) = Some alice_cart"
    by (simp add: find_one_def shop_db_def alice_cart_def alice_def)
  have h2: "''p-other'' \<notin> CartItem_product_id ` set (Cart_items alice_cart)"
    by (simp add: alice_cart_def wig_line_def)
  have h3: "Cart_total_amount alice_cart = items_total (Cart_items alice_cart)"
    by (simp add: alice_cart_def wig_line_def float_eval f_89_99_def f_269_97_def)
  show ?thesis
    using h1 h2 h3 remove_absent_only_touches_updated_at [OF h1 h2, of 5000123] by blast
qed

section \<open>Cart: adding a product\<close>

lemma add_to_cart_result:
  assumes "find_one (\<lambda>p. Product_id p = product_id \<and> Product_is_active p) (products db) = Some product"
  shows "find_one (\<lambda>c. Cart_user_id c = User_id u) (carts db) = None \<Longrightarrow>
         add_to_cart db product_id quantity u uuid utcnow =
           (if \<not> bson_int64 quantity
            then Inl (OverflowError,
                      db\<lparr>carts := carts db @ [bson_Cart (new_Cart uuid utcnow (User_id u))]\<rparr>)
            else Inr (\<lparr>message = ''Item added to cart'', total_items = 1\<rparr>,
                db\<lparr>carts := carts db @
                  [\<lparr>Cart_id = uuid, Cart_user_id = User_id u,
                    Cart_items = [\<lparr>CartItem_product_id = product_id, CartItem_quantity = quantity,
                                   CartItem_price = Product_price product\<rparr>],
                    Cart_total_amount =
                      items_total [\<lparr>CartItem_product_id = product_id, CartItem_quantity = quantity,
                                   CartItem_price = Product_price product\<rparr>],
                    Cart_created_at = bson_datetime utcnow,
                    Cart_updated_at = bson_datetime utcnow\<rparr>]\<rparr>))"
    and "find_one (\<lambda>c. Cart_user_id c = User_id u) (carts db) = Some cart \<Longrightarrow>
         add_to_cart db product_id quantity u uuid utcnow =
           (if \<not> bson_items (merge_item product_id quantity (Product_price product) (Cart_items cart))
            then Inl (OverflowError, db)
            else Inr (\<lparr>message = ''Item added to cart'',
                 total_items = length (merge_item product_id quantity (Product_price product) (Cart_items cart))\<rparr>,
                db\<lparr>carts := update_one (\<lambda>c. Cart_user_id c = User_id u)
                  (\<lambda>c. c\<lparr>Cart_items := merge_item product_id quantity (Product_price product) (Cart_items cart),
                          Cart_total_amount := items_total (merge_item product_id quantity (Product_price product) (Cart_items cart)),
                          Cart_updated_at := bson_datetime utcnow\<rparr>) (carts db)\<rparr>))"
proof -
  assume n: "find_one (\<lambda>c. Cart_user_id c = User_id u) (carts db) = None"
  have own: "Cart_user_id (bson_Cart (new_Cart uuid utcnow (User_id u))) = User_id u"
    by (simp add: new_Cart_def)
  show "add_to_cart db product_id quantity u uuid utcnow =
           (if \<not> bson_int64 quantity
            then Inl (OverflowError,
                      db\<lparr>carts := carts db @ [bson_Cart (new_Cart uuid utcnow (User_id u))]\<rparr>)
            else Inr (\<lparr>message = ''Item added to cart'', total_items = 1\<rparr>,
                db\<lparr>carts := carts db @
                  [\<lparr>Cart_id = uuid, Cart_user_id = User_id u,
                    Cart_items = [\<lparr>CartItem_product_id = product_id, CartItem_quantity = quantity,
                                   CartItem_price = Product_price product\<rparr>],
                    Cart_total_amount =
                      items_total [\<lparr>CartItem_product_id = product_id, CartItem_quantity = quantity,
                                   CartItem_price = Product_price product\<rparr>],
                    Cart_created_at = bson_datetime utcnow,
                    Cart_updated_at = bson_datetime utcnow\<rparr>]\<rparr>))"
    using assms n update_one_insert_one_fresh [OF n own]
    by (simp add: add_to_cart_def Let_def merge_item_def new_Cart_def bson_Cart_def
          bson_items_def insert_one_def)
next
  assume s: "find_one (\<lambda>c. Cart_user_id c = User_id u) (carts db) = Some cart"
  show "add_to_cart db product_id quantity u uuid utcnow =
           (if \<not> bson_items (merge_item product_id quantity (Product_price product) (Cart_items cart))
            then Inl (OverflowError, db)
            else Inr (\<lparr>message = ''Item added to cart'',
                 total_items = length (merge_item product_id quantity (Product_price product) (Cart_items cart))\<rparr>,
                db\<lparr>carts := update_one (\<lambda>c. Cart_user_id c = User_id u)
                  (\<lambda>c. c\<lparr>Cart_items := merge_item product_id quantity (Product_price product) (Cart_items cart),
                          Cart_total_amount := items_total (merge_item product_id quantity (Product_price product) (Cart_items cart)),
                          Cart_updated_at := bson_datetime utcnow\<rparr>) (carts db)\<rparr>))"
    using assms s by (simp add: add_to_cart_def Let_def)
qed

lemma add_to_cart_persisted:
  fixes db :: database and u :: User and product_id :: string and quantity :: int
    and product :: Product
  assumes prod: "find_one (\<lambda>p. Product_id p = product_id \<and> Product_is_active p) (products db) = Some product"
  defines "before \<equiv> (case find_one (\<lambda>c. Cart_user_id c = User_id u) (carts db) of
                        None \<Rightarrow> [] | Some cart \<Rightarrow> Cart_items cart)"
  defines "after \<equiv> merge_item product_id quantity (Product_price product) before"
  assumes fits: "bson_items after"
  shows "\<exists>r db' cart'.
           add_to_cart db product_id quantity u uuid utcnow = Inr (r, db')
         \<and> message r = ''Item added to cart'' \<and> total_items r = length after
         \<and> products db' = products db
         \<and> find_one (\<lambda>c. Cart_user_id c = User_id u) (carts db') = Some cart'
         \<and> Cart_items cart' = after \<and> Cart_total_amount cart' = items_total after"
proof (cases "find_one (\<lambda>c. Cart_user_id c = User_id u) (carts db)")
  case None
  let ?line = "\<lparr>CartItem_product_id = product_id, CartItem_quantity = quantity,
                 CartItem_price = Product_price product\<rparr>"
  let ?cart' = "\<lparr>Cart_id = uuid, Cart_user_id = User_id u, Cart_items = [?line],
                  Cart_total_amount = items_total [?line],
                  Cart_created_at = bson_datetime utcnow,
                  Cart_updated_at = bson_datetime utcnow\<rparr>"
  have a: "after = [?line]"
    using None by (simp add: after_def before_def merge_item_def)
  with fits have q: "bson_int64 quantity" by (simp add: bson_items_def)
  have f: "find_one (\<lambda>c. Cart_user_id c = User_id u) (carts db @ [?cart']) = Some ?cart'"
    using find_one_insert_one_fresh [OF None, of ?cart'] by (simp add: insert_one_def)
  show ?thesis
    using add_to_cart_result(1) [OF prod None, where quantity = quantity and uuid = uuid
      and utcnow = utcnow] f a q
    by simp
next
  case (Some cart)
  have a: "after = merge_item product_id quantity (Product_price product) (Cart_items cart)"
    using Some by (simp add: after_def before_def)
  have f: "find_one (\<lambda>c. Cart_user_id c = User_id u)
             (update_one (\<lambda>c. Cart_user_id c = User_id u)
                (\<lambda>c. c\<lparr>Cart_items := after, Cart_total_amount := items_total after,
                        Cart_updated_at := bson_datetime utcnow\<rparr>) (carts db))
           = Some (cart\<lparr>Cart_items := after, Cart_total_amount := items_total after,
                        Cart_updated_at := bson_datetime utcnow\<rparr>)"
    using Some by (subst find_one_update_one) simp_all
  show ?thesis
    using add_to_cart_result(2) [OF prod Some, where quantity = quantity and uuid = uuid
      and utcnow = utcnow] f a fits by simp
qed

lemma add_to_cart_Inr_product:
  assumes "add_to_cart db product_id quantity u uuid utcnow = Inr (r, db')"
  shows "\<exists>product. find_one (\<lambda>p. Product_id p = product_id \<and> Product_is_active p) (products db)
                      = Some product"
  using assms by (cases "find_one (\<lambda>p. Product_id p = product_id \<and> Product_is_active p) (products db)")
                 (simp_all add: add_to_cart_def)

lemma add_to_cart_Inr_fits:
  assumes add: "add_to_cart db product_id quantity u uuid utcnow = Inr (r, db')"
      and prod: "find_one (\<lambda>p. Product_id p = product_id \<and> Product_is_active p) (products db)
                   = Some product"
  shows "bson_items (merge_item product_id quantity (Product_price product)
           (case find_one (\<lambda>c. Cart_user_id c = User_id u) (carts db) of
              None \<Rightarrow> [] | Some cart \<Rightarrow> Cart_items cart))"
proof (cases "find_one (\<lambda>c. Cart_user_id c = User_id u) (carts db)")
  case None
  with add add_to_cart_result(1) [OF prod None, where quantity = quantity and uuid = uuid
      and utcnow = utcnow]
  show ?thesis by (simp add: merge_item_def bson_items_def split: if_splits)
next
  case (Some cart)
  with add add_to_cart_result(2) [OF prod Some, where quantity = quantity and uuid = uuid
      and utcnow = utcnow]
  show ?thesis by (simp split: if_splits)
qed

text \<open>
  C10. After a successful \<open>add_to_cart\<close> the account has a stored cart, and \<open>total_items\<close>
  of the response is the number of line items of that cart. When the line items of the cart
  before the call name pairwise different products, so do those after it, and
  \<open>total_items\<close> is the number of different product identifiers in the cart. (That this is
  not the sum of the quantities shows at any add of quantity 2 to an empty cart.)
\<close>

theorem add_total_items_counts_lines:
  assumes "add_to_cart db product_id quantity u uuid utcnow = Inr (r, db')"
  shows "\<exists>cart'.
           find_one (\<lambda>c. Cart_user_id c = User_id u) (carts db') = Some cart'
         \<and> total_items r = length (Cart_items cart')
         \<and> ((\<forall>cart. find_one (\<lambda>c. Cart_user_id c = User_id u) (carts db) = Some cart
                 \<longrightarrow> distinct (map CartItem_product_id (Cart_items cart)))
              \<longrightarrow> distinct (map CartItem_product_id (Cart_items cart'))
                \<and> total_items r = card (CartItem_product_id ` set (Cart_items cart')))"
proof -
  from add_to_cart_Inr_product [OF assms] obtain product where
    prod: "find_one (\<lambda>p. Product_id p = product_id \<and> Product_is_active p) (products db) = Some product"
    by blast
  define before where "before = (case find_one (\<lambda>c. Cart_user_id c = User_id u) (carts db) of
                        None \<Rightarrow> [] | Some cart \<Rightarrow> Cart_items cart)"
  define after where "after = merge_item product_id quantity (Product_price product) before"
  have fits: "bson_items (merge_item product_id quantity (Product_price product)
           (case find_one (\<lambda>c. Cart_user_id c = User_id u) (carts db) of
              None \<Rightarrow> [] | Some cart \<Rightarrow> Cart_items cart))"
    by (rule add_to_cart_Inr_fits [OF assms prod])
  from add_to_cart_persisted [OF prod fits, where uuid = uuid and utcnow = utcnow] assms
  obtain cart' where
    c: "find_one (\<lambda>c. Cart_user_id c = User_id u) (carts db') = Some cart'"
       "total_items r = length after" "Cart_items cart' = after"
    by (auto simp: after_def before_def)
  have d: "distinct (map CartItem_product_id after)"
    if "\<forall>cart. find_one (\<lambda>c. Cart_user_id c = User_id u) (carts db) = Some cart
                 \<longrightarrow> distinct (map CartItem_product_id (Cart_items cart))"
  proof -
    from that have "distinct (map CartItem_product_id before)"
      by (simp add: before_def split: option.splits)
    then show ?thesis unfolding after_def by (rule distinct_merge_item)
  qed
  have "length after = card (CartItem_product_id ` set after)"
    if "distinct (map CartItem_product_id after)"
    using distinct_card [OF that] by simp
  with c d show ?thesis by auto
qed

lemma add_wig_2_fresh:
  "add_to_cart fresh_db ''p-wig'' 2 alice ''c-1'' 5000123
     = Inr (\<lparr>message = ''Item added to cart'', total_items = 1\<rparr>,
            fresh_db\<lparr>carts := [\<lparr>Cart_id = ''c-1'', Cart_user_id = ''u-alice'',
                                 Cart_items = [wig_line 2],
                                 Cart_total_amount = Finite False 6332483288547983 (- 45),
                                 Cart_created_at = 5000000, Cart_updated_at = 5000000\<rparr>]\<rparr>)"
  by (simp add: add_to_cart_def find_one_def insert_one_def new_Cart_def merge_item_def
        bson_Cart_def bson_datetime_def bson_items_def bson_int64_def float_eval
        fresh_db_def alice_def wig_def wig_line_def f_89_99_def)

theorem add_total_items_counts_lines_witness:
  "add_to_cart fresh_db ''p-wig'' 2 alice ''c-1'' 5000123
     = Inr (\<lparr>message = ''Item added to cart'', total_items = 1\<rparr>,
            fresh_db\<lparr>carts := [\<lparr>Cart_id = ''c-1'', Cart_user_id = ''u-alice'',
                                 Cart_items = [wig_line 2],
                                 Cart_total_amount = Finite False 6332483288547983 (- 45),
                                 Cart_created_at = 5000000, Cart_updated_at = 5000000\<rparr>]\<rparr>)
   \<and> sum_list (map CartItem_quantity [wig_line 2]) = 2
   \<and> (\<exists>cart'. find_one (\<lambda>c. Cart_user_id c = User_id alice)
                 (carts (fresh_db\<lparr>carts := [\<lparr>Cart_id = ''c-1'', Cart_user_id = ''u-alice'',
                                 Cart_items = [wig_line 2],
                                 Cart_total_amount = Finite False 6332483288547983 (- 45),
                                 Cart_created_at = 5000000, Cart_updated_at = 5000000\<rparr>]\<rparr>)) = Some cart'
         \<and> (1::nat) = length (Cart_items cart')
         \<and> (1::nat) = card (CartItem_product_id ` set (Cart_items cart')))"
proof -
  note h = add_wig_2_fresh
  have n: "\<forall>cart. find_one (\<lambda>c. Cart_user_id c = User_id alice) (carts fresh_db) = Some cart
                 \<longrightarrow> distinct (map CartItem_product_id (Cart_items cart))"
    by (simp add: find_one_def fresh_db_def)
  have q: "sum_list (map CartItem_quantity [wig_line 2]) = 2"
    by (simp add: wig_line_def)
  show ?thesis
    using h n q add_total_items_counts_lines [OF h] by auto
qed

text \<open>
  C1, as amended. Let the product be found active in the catalog, with record \<open>product\<close>,
  and let the account have no cart or a cart without items. Then adding 2 succeeds; after
  any change of the catalog that leaves the product to be found active (with record
  \<open>product'\<close>, at any price), adding 3 succeeds; and after any further change of the catalog
  the account's cart has exactly one line item, for the product, with quantity 5 and the
  price \<open>product\<close> had at the first add. Its total is what Python's \<^verbatim>\<open>sum\<close> gives for the
  one float product of 5 and that price.
\<close>

theorem add_twice_merges:
  assumes prod: "find_one (\<lambda>p. Product_id p = product_id \<and> Product_is_active p) (products db)
                   = Some product"
      and empty: "find_one (\<lambda>c. Cart_user_id c = User_id u) (carts db) = None
                  \<or> (\<exists>cart. find_one (\<lambda>c. Cart_user_id c = User_id u) (carts db) = Some cart
                            \<and> Cart_items cart = [])"
      and prod': "find_one (\<lambda>p. Product_id p = product_id \<and> Product_is_active p) catalog'
                   = Some product'"
  shows "\<exists>r1 db1 r2 db2 cart2.
           add_to_cart db product_id 2 u uuid t1 = Inr (r1, db1)
         \<and> add_to_cart (db1\<lparr>products := catalog'\<rparr>) product_id 3 u uuid' t2 = Inr (r2, db2)
         \<and> find_one (\<lambda>c. Cart_user_id c = User_id u) (carts (db2\<lparr>products := catalog''\<rparr>))
             = Some cart2
         \<and> Cart_items cart2 = [\<lparr>CartItem_product_id = product_id, CartItem_quantity = 5,
                                  CartItem_price = Product_price product\<rparr>]
         \<and> Cart_total_amount cart2
             = py_sum [py_float_mul (py_float_of_int 5) (Product_price product)]"
proof -
  let ?line = "\<lambda>n. \<lparr>CartItem_product_id = product_id, CartItem_quantity = n,
                       CartItem_price = Product_price product\<rparr>"
  have before: "(case find_one (\<lambda>c. Cart_user_id c = User_id u) (carts db) of
                   None \<Rightarrow> [] | Some cart \<Rightarrow> Cart_items cart) = []"
    using empty by auto
  have m1: "merge_item product_id 2 (Product_price product) [] = [?line 2]"
    by (simp add: merge_item_def)
  have fits1: "bson_items (merge_item product_id 2 (Product_price product)
                 (case find_one (\<lambda>c. Cart_user_id c = User_id u) (carts db) of
                    None \<Rightarrow> [] | Some cart \<Rightarrow> Cart_items cart))"
    unfolding before m1 by (simp add: bson_items_def bson_int64_def)
  from add_to_cart_persisted [OF prod fits1, where uuid = uuid and utcnow = t1]
  obtain r1 db1 cart1 where
    a1: "add_to_cart db product_id 2 u uuid t1 = Inr (r1, db1)" and
    c1: "find_one (\<lambda>c. Cart_user_id c = User_id u) (carts db1) = Some cart1"
        "Cart_items cart1 = [?line 2]"
    unfolding before m1 by blast
  have prod1: "find_one (\<lambda>p. Product_id p = product_id \<and> Product_is_active p)
                 (products (db1\<lparr>products := catalog'\<rparr>)) = Some product'"
    using prod' by simp
  have before1: "(case find_one (\<lambda>c. Cart_user_id c = User_id u)
                         (carts (db1\<lparr>products := catalog'\<rparr>)) of
                    None \<Rightarrow> [] | Some cart \<Rightarrow> Cart_items cart) = [?line 2]"
    using c1 by simp
  have m2: "merge_item product_id 3 (Product_price product') [?line 2] = [?line 5]"
    by (simp add: merge_item_def)
  have fits2: "bson_items (merge_item product_id 3 (Product_price product')
                 (case find_one (\<lambda>c. Cart_user_id c = User_id u)
                         (carts (db1\<lparr>products := catalog'\<rparr>)) of
                    None \<Rightarrow> [] | Some cart \<Rightarrow> Cart_items cart))"
    unfolding before1 m2 by (simp add: bson_items_def bson_int64_def)
  have t: "items_total [?line 5] = py_sum [py_float_mul (py_float_of_int 5) (Product_price product)]"
    by (simp add: items_total_def)
  from add_to_cart_persisted [OF prod1 fits2, where uuid = uuid' and utcnow = t2]
  obtain r2 db2 cart2 where
    a2: "add_to_cart (db1\<lparr>products := catalog'\<rparr>) product_id 3 u uuid' t2 = Inr (r2, db2)" and
    c2: "find_one (\<lambda>c. Cart_user_id c = User_id u) (carts db2) = Some cart2"
        "Cart_items cart2 = [?line 5]"
        "Cart_total_amount cart2
           = py_sum [py_float_mul (py_float_of_int 5) (Product_price product)]"
    unfolding before1 m2 t by blast
  from c2(1) have "find_one (\<lambda>c. Cart_user_id c = User_id u) (carts (db2\<lparr>products := catalog''\<rparr>))
                     = Some cart2"
    by simp
  with a1 a2 c2 show ?thesis by blast
qed

lemma wig_found:
  "find_one (\<lambda>p. Product_id p = ''p-wig'' \<and> Product_is_active p) (products fresh_db) = Some wig"
  by (simp add: find_one_def fresh_db_def wig_def)

lemma five_wigs: "py_sum [py_float_mul (py_float_of_int 5) (Product_price wig)] = f_449_95"
  by (simp add: float_eval wig_def f_89_99_def f_449_95_def)

theorem add_twice_merges_witness:
  "find_one (\<lambda>p. Product_id p = ''p-wig'' \<and> Product_is_active p) (products fresh_db) = Some wig
   \<and> find_one (\<lambda>c. Cart_user_id c = User_id alice) (carts fresh_db) = None
   \<and> find_one (\<lambda>p. Product_id p = ''p-wig'' \<and> Product_is_active p)
        [wig\<lparr>Product_price := f_1\<rparr>] = Some (wig\<lparr>Product_price := f_1\<rparr>)
   \<and> (\<exists>r1 db1 r2 db2 cart2.
           add_to_cart fresh_db ''p-wig'' 2 alice ''c-1'' 5000123 = Inr (r1, db1)
         \<and> add_to_cart (db1\<lparr>products := [wig\<lparr>Product_price := f_1\<rparr>]\<rparr>) ''p-wig'' 3 alice
              ''c-2'' 6000456 = Inr (r2, db2)
         \<and> find_one (\<lambda>c. Cart_user_id c = User_id alice)
              (carts (db2\<lparr>products := [wig\<lparr>Product_price := f_1e16\<rparr>]\<rparr>)) = Some cart2
         \<and> Cart_items cart2 = [wig_line 5]
         \<and> Cart_total_amount cart2 = f_449_95)"
proof -
  note h1 = wig_found
  have h2: "find_one (\<lambda>c. Cart_user_id c = User_id alice) (carts fresh_db) = None
            \<or> (\<exists>cart. find_one (\<lambda>c. Cart_user_id c = User_id alice) (carts fresh_db) = Some cart
                      \<and> Cart_items cart = [])"
    by (simp add: find_one_def fresh_db_def)
  have h2': "find_one (\<lambda>c. Cart_user_id c = User_id alice) (carts fresh_db) = None"
    by (simp add: find_one_def fresh_db_def)
  have h3: "find_one (\<lambda>p. Product_id p = ''p-wig'' \<and> Product_is_active p)
              [wig\<lparr>Product_price := f_1\<rparr>] = Some (wig\<lparr>Product_price := f_1\<rparr>)"
    by (simp add: find_one_def wig_def)
  have e: "\<lparr>CartItem_product_id = ''p-wig'', CartItem_quantity = 5,
            CartItem_price = Product_price wig\<rparr> = wig_line 5"
    by (simp add: wig_def wig_line_def)
  show ?thesis
    using h1 h2' h3 add_twice_merges [OF h1 h2 h3, of "''c-1''" 5000123 "''c-2''" 6000456
        "[wig\<lparr>Product_price := f_1e16\<rparr>]"]
    unfolding e five_wigs by blast
qed

text \<open>
  C1 as stated (the total is 5 times the captured price) fails at the price 89.99 of the
  repository's sample data: after the two adds the cart holds the line with quantity 5
  and the price 89.99, and its total is the float 449.95, which is not 5 times the number
  that the float 89.99 stands for.
\<close>

theorem add_twice_total_not_exact_counterexample:
  "add_to_cart fresh_db ''p-wig'' 2 alice ''c-1'' 5000123
     = Inr (\<lparr>message = ''Item added to cart'', total_items = 1\<rparr>,
            fresh_db\<lparr>carts := [\<lparr>Cart_id = ''c-1'', Cart_user_id = ''u-alice'',
                                 Cart_items = [wig_line 2],
                                 Cart_total_amount = Finite False 6332483288547983 (- 45),
                                 Cart_created_at = 5000000, Cart_updated_at = 5000000\<rparr>]\<rparr>)
   \<and> add_to_cart
        (fresh_db\<lparr>carts := [\<lparr>Cart_id = ''c-1'', Cart_user_id = ''u-alice'',
                                 Cart_items = [wig_line 2],
                                 Cart_total_amount = Finite False 6332483288547983 (- 45),
                                 Cart_created_at = 5000000, Cart_updated_at = 5000000\<rparr>]\<rparr>)
        ''p-wig'' 3 alice ''c-2'' 6000456
     = Inr (\<lparr>message = ''Item added to cart'', total_items = 1\<rparr>,
            fresh_db\<lparr>carts := [\<lparr>Cart_id = ''c-1'', Cart_user_id = ''u-alice'',
                                 Cart_items = [wig_line 5],
                                 Cart_total_amount = f_449_95,
                                 Cart_created_at = 5000000, Cart_updated_at = 6000000\<rparr>]\<rparr>)
   \<and> CartItem_price (wig_line 5) = f_89_99
   \<and> float_value f_449_95 \<noteq> 5 * float_value f_89_99"
  by (simp add: add_to_cart_def find_one_def insert_one_def new_Cart_def merge_item_def
        bson_Cart_def bson_datetime_def bson_items_def bson_int64_def float_eval float_value_def
        fresh_db_def alice_def wig_def wig_line_def f_89_99_def f_449_95_def)

section \<open>The cart invariant is kept by every operation that writes a cart\<close>














section \<open>Orders\<close>





text \<open>
  C7. \<open>get_order\<close> fails, with 404 \<open>Order not found\<close>, exactly when no stored order has both
  the requested identifier and the authenticated account as owner: no order has the
  identifier, or those that have it belong to other accounts. What it returns otherwise is
  a stored order with that identifier owned by the authenticated account. In particular,
  with order identifiers unique, a stored order is returned to its owner and is not found
  by any other account.
\<close>

theorem get_order_ownership:
  "(get_order db order_id u = Inl (HTTPException 404 ''Order not found'')
      \<longleftrightarrow> (\<forall>ord\<in>set (orders db). Order_id ord = order_id \<longrightarrow> Order_user_id ord \<noteq> User_id u))
   \<and> (\<forall>e. get_order db order_id u = Inl e \<longrightarrow> e = HTTPException 404 ''Order not found'')
   \<and> (\<forall>ord. get_order db order_id u = Inr ord
          \<longrightarrow> ord \<in> set (orders db) \<and> Order_id ord = order_id \<and> Order_user_id ord = User_id u)
   \<and> (\<forall>ord\<in>set (orders db). distinct (map Order_id (orders db)) \<and> Order_id ord = order_id
          \<longrightarrow> (Order_user_id ord = User_id u \<longrightarrow> get_order db order_id u = Inr ord)
            \<and> (Order_user_id ord \<noteq> User_id u
                 \<longrightarrow> get_order db order_id u = Inl (HTTPException 404 ''Order not found'')))"
proof -
  let ?flt = "\<lambda>ord. Order_id ord = order_id \<and> Order_user_id ord = User_id u"
  have none: "find_one ?flt (orders db) = None
                \<longleftrightarrow> (\<forall>ord\<in>set (orders db). Order_id ord = order_id \<longrightarrow> Order_user_id ord \<noteq> User_id u)"
    unfolding find_one_None_iff by blast
  have fail: "get_order db order_id u = Inl (HTTPException 404 ''Order not found'')
                \<longleftrightarrow> find_one ?flt (orders db) = None"
    by (simp add: get_order_def split: option.splits)
  have err: "e = HTTPException 404 ''Order not found''" if "get_order db order_id u = Inl e" for e
    using that by (simp add: get_order_def split: option.splits)
  have ok: "ord \<in> set (orders db) \<and> Order_id ord = order_id \<and> Order_user_id ord = User_id u"
    if "get_order db order_id u = Inr ord" for ord
  proof -
    from that have "find_one ?flt (orders db) = Some ord"
      by (simp add: get_order_def split: option.splits)
    then show ?thesis by (auto dest: find_one_Some_D)
  qed
  have uniq: "(Order_user_id ord = User_id u \<longrightarrow> get_order db order_id u = Inr ord)
            \<and> (Order_user_id ord \<noteq> User_id u
                 \<longrightarrow> get_order db order_id u = Inl (HTTPException 404 ''Order not found''))"
    if mem: "ord \<in> set (orders db)" and d: "distinct (map Order_id (orders db))"
      and oid: "Order_id ord = order_id" for ord
  proof -
    have same: "ord' = ord" if "ord' \<in> set (orders db)" "Order_id ord' = order_id" for ord'
    proof -
      from d have "inj_on Order_id (set (orders db))" by (simp add: distinct_map)
      moreover from that oid have "Order_id ord' = Order_id ord" by simp
      ultimately show ?thesis using that(1) mem by (rule inj_onD)
    qed
    show ?thesis
    proof (intro conjI impI)
      assume own: "Order_user_id ord = User_id u"
      with mem oid have "find_one ?flt (orders db) \<noteq> None"
        unfolding find_one_None_iff by blast
      then obtain ord' where f: "find_one ?flt (orders db) = Some ord'" by blast
      from find_one_Some_D [OF f] same have "ord' = ord" by blast
      with f show "get_order db order_id u = Inr ord" by (simp add: get_order_def)
    next
      assume "Order_user_id ord \<noteq> User_id u"
      with same have "\<forall>ord'\<in>set (orders db). Order_id ord' = order_id \<longrightarrow> Order_user_id ord' \<noteq> User_id u"
        by blast
      with none fail show "get_order db order_id u = Inl (HTTPException 404 ''Order not found'')"
        by blast
    qed
  qed
  have first: "get_order db order_id u = Inl (HTTPException 404 ''Order not found'')
      \<longleftrightarrow> (\<forall>ord\<in>set (orders db). Order_id ord = order_id \<longrightarrow> Order_user_id ord \<noteq> User_id u)"
    using fail none by (rule trans)
  have err_all: "\<forall>e. get_order db order_id u = Inl e \<longrightarrow> e = HTTPException 404 ''Order not found''"
    using err by blast
  have ok_all: "\<forall>ord. get_order db order_id u = Inr ord
          \<longrightarrow> ord \<in> set (orders db) \<and> Order_id ord = order_id \<and> Order_user_id ord = User_id u"
    using ok by blast
  have uniq_all: "\<forall>ord\<in>set (orders db). distinct (map Order_id (orders db)) \<and> Order_id ord = order_id
          \<longrightarrow> (Order_user_id ord = User_id u \<longrightarrow> get_order db order_id u = Inr ord)
            \<and> (Order_user_id ord \<noteq> User_id u
                 \<longrightarrow> get_order db order_id u = Inl (HTTPException 404 ''Order not found''))"
  proof (intro ballI impI)
    fix ord
    assume "ord \<in> set (orders db)"
      and "distinct (map Order_id (orders db)) \<and> Order_id ord = order_id"
    then show "(Order_user_id ord = User_id u \<longrightarrow> get_order db order_id u = Inr ord)
            \<and> (Order_user_id ord \<noteq> User_id u
                 \<longrightarrow> get_order db order_id u = Inl (HTTPException 404 ''Order not found''))"
      using uniq [of ord] by (elim conjE) assumption
  qed
  show ?thesis
    using first err_all ok_all uniq_all by (intro conjI) assumption+
qed

theorem get_order_ownership_witness:
  "alice_order \<in> set (orders shop_db) \<and> distinct (map Order_id (orders shop_db))
   \<and> Order_id alice_order = ''o-1'' \<and> Order_user_id alice_order = User_id alice
   \<and> Order_user_id alice_order \<noteq> User_id bob
   \<and> get_order shop_db ''o-1'' alice = Inr alice_order
   \<and> get_order shop_db ''o-1'' bob = Inl (HTTPException 404 ''Order not found'')
   \<and> get_order shop_db ''o-7'' alice = Inl (HTTPException 404 ''Order not found'')"
proof -
  have h: "alice_order \<in> set (orders shop_db)" "distinct (map Order_id (orders shop_db))"
    "Order_id alice_order = ''o-1''" "Order_user_id alice_order = User_id alice"
    "Order_user_id alice_order \<noteq> User_id bob"
    by (simp_all add: shop_db_def alice_order_def alice_def bob_def)
  have n: "\<forall>ord\<in>set (orders shop_db). Order_id ord = ''o-7'' \<longrightarrow> Order_user_id ord \<noteq> User_id alice"
    by (simp add: shop_db_def alice_order_def)
  show ?thesis
    using h n get_order_ownership [of shop_db "''o-1''" alice]
      get_order_ownership [of shop_db "''o-1''" bob]
      get_order_ownership [of shop_db "''o-7''" alice]
    by blast
qed

section \<open>Registration and login\<close>

lemma login_failures_uniform_short_password:
  assumes unknown: "find_one (\<lambda>u. User_email u = UserLogin_email d1) (users db) = None"
      and known: "find_one (\<lambda>u. User_email u = UserLogin_email d2) (users db) = Some account"
      and wrong: "verify_password (UserLogin_password d2) (User_password_hash account) = Inr False"
  shows "login secret db d1 t1 = Inl (HTTPException 401 ''Invalid email or password'')
       \<and> login secret db d2 t2 = login secret db d1 t1"
  using assms by (simp add: login_def)

text \<open>
  C5. The claim holds while \<open>verify_password\<close> returns, by the lemma above. It fails where
  \<open>verify_password\<close> raises, which \<open>login\<close> does not catch and which happens on the path
  of a registered email only: with a password of 73 bytes, the login with the email of
  \<open>alice\<close> raises \<^verbatim>\<open>ValueError\<close> and the login with an email that no account has raises
  401 \<open>Invalid email or password\<close>.
\<close>

theorem login_long_password_distinguishes:
  "length long_password = 73
   \<and> login ''s3cret'' shop_db
        \<lparr>UserLogin_email = ''alice@example.com'', UserLogin_password = long_password\<rparr> 5000123
       = Inl ValueError
   \<and> login ''s3cret'' shop_db
        \<lparr>UserLogin_email = ''invalid@example.com'', UserLogin_password = long_password\<rparr> 5000123
       = Inl (HTTPException 401 ''Invalid email or password'')"
  by (simp add: login_def verify_password_def bcrypt_checkpw_def bcrypt_hashpw_def
        find_one_def long_password_def shop_db_def alice_def bob_def)

lemma hash_password_ok:
  "length password \<le> 72 \<Longrightarrow> 29 \<le> length gensalt \<Longrightarrow> take 4 gensalt = ''$2b$'' \<Longrightarrow>
   hash_password gensalt password = Inr (take 29 gensalt @ password)"
  by (simp add: hash_password_def bcrypt_hashpw_def)

text \<open>
  C6, as amended. \<open>register\<close> rejects an email its validator does not accept with 400
  \<open>Invalid email format\<close>, before it looks at the stored accounts. For an accepted email it
  fails with 400 \<open>Email already registered\<close> exactly when a stored account has that email.
  Otherwise, for a password of at most 72 bytes (and a salt that is one), it appends one
  account, whose identifier is the generated one, and returns the view of that account:
  identifier, email, names, creation time and active flag. The view is the same whatever the
  password and the salt are. The identifiers of the stored accounts are pairwise different
  afterwards exactly when they were before and the generated identifier is none of them;
  the handler does not look. A second registration with the same email on the resulting
  database fails with \<open>Email already registered\<close>.
\<close>

theorem register_outcomes:
  "(\<not> validate_email (UserCreate_email d) \<longrightarrow>
      register validate_email db d uuid utcnow gensalt
        = Inl (HTTPException 400 ''Invalid email format''))
   \<and> (validate_email (UserCreate_email d) \<longrightarrow>
        (register validate_email db d uuid utcnow gensalt
           = Inl (HTTPException 400 ''Email already registered'')
         \<longleftrightarrow> (\<exists>account\<in>set (users db). User_email account = UserCreate_email d)))
   \<and> (validate_email (UserCreate_email d)
        \<and> (\<forall>account\<in>set (users db). User_email account \<noteq> UserCreate_email d)
        \<and> length (UserCreate_password d) \<le> 72
        \<and> 29 \<le> length gensalt \<and> take 4 gensalt = ''$2b$'' \<longrightarrow>
        (\<exists>user_obj db'.
           register validate_email db d uuid utcnow gensalt
             = Inr (\<lparr>UserResponse_id = uuid, UserResponse_email = UserCreate_email d,
                     UserResponse_first_name = UserCreate_first_name d,
                     UserResponse_last_name = UserCreate_last_name d,
                     UserResponse_created_at = utcnow, UserResponse_is_active = True\<rparr>, db')
         \<and> db' = db\<lparr>users := users db @ [user_obj]\<rparr>
         \<and> User_id user_obj = uuid \<and> User_email user_obj = UserCreate_email d
         \<and> User_created_at user_obj = bson_datetime utcnow
         \<and> hash_password gensalt (UserCreate_password d) = Inr (User_password_hash user_obj)
         \<and> (length password' \<le> 72 \<and> 29 \<le> length gensalt' \<and> take 4 gensalt' = ''$2b$'' \<longrightarrow>
               map_sum id fst (register validate_email db
                                 (d\<lparr>UserCreate_password := password'\<rparr>) uuid utcnow gensalt')
               = map_sum id fst (register validate_email db d uuid utcnow gensalt))
         \<and> (distinct (map User_id (users db'))
               \<longleftrightarrow> distinct (map User_id (users db)) \<and> uuid \<notin> User_id ` set (users db))
         \<and> (UserCreate_email d2 = UserCreate_email d \<longrightarrow>
               register validate_email db' d2 uuid2 utcnow2 gensalt2
                 = Inl (HTTPException 400 ''Email already registered''))))"
proof (intro conjI impI)
  assume "\<not> validate_email (UserCreate_email d)"
  then show "register validate_email db d uuid utcnow gensalt
        = Inl (HTTPException 400 ''Invalid email format'')"
    by (simp add: register_def)
next
  assume v: "validate_email (UserCreate_email d)"
  have "find_one (\<lambda>u. User_email u = UserCreate_email d) (users db) \<noteq> None
          \<longleftrightarrow> (\<exists>account\<in>set (users db). User_email account = UserCreate_email d)"
    unfolding find_one_None_iff by blast
  moreover have "register validate_email db d uuid utcnow gensalt
           = Inl (HTTPException 400 ''Email already registered'')
         \<longleftrightarrow> find_one (\<lambda>u. User_email u = UserCreate_email d) (users db) \<noteq> None"
    using v
    by (auto simp: register_def Let_def hash_password_def bcrypt_hashpw_def
          split: option.splits sum.splits if_splits)
  ultimately show "register validate_email db d uuid utcnow gensalt
           = Inl (HTTPException 400 ''Email already registered'')
         \<longleftrightarrow> (\<exists>account\<in>set (users db). User_email account = UserCreate_email d)"
    by (rule trans [rotated])
next
  assume a: "validate_email (UserCreate_email d)
        \<and> (\<forall>account\<in>set (users db). User_email account \<noteq> UserCreate_email d)
        \<and> length (UserCreate_password d) \<le> 72
        \<and> 29 \<le> length gensalt \<and> take 4 gensalt = ''$2b$''"
  then have v: "validate_email (UserCreate_email d)" by (rule conjunct1)
  from a have n: "find_one (\<lambda>u. User_email u = UserCreate_email d) (users db) = None"
    unfolding find_one_None_iff by blast
  from a have h: "hash_password gensalt (UserCreate_password d)
                    = Inr (take 29 gensalt @ UserCreate_password d)"
    by (simp add: hash_password_ok)
  define user_obj where "user_obj =
     \<lparr>User_id = uuid, User_email = UserCreate_email d,
      User_first_name = UserCreate_first_name d, User_last_name = UserCreate_last_name d,
      User_password_hash = take 29 gensalt @ UserCreate_password d,
      User_created_at = bson_datetime utcnow, User_is_active = True\<rparr>"
  define db' where "db' = db\<lparr>users := users db @ [user_obj]\<rparr>"
  let ?view = "\<lparr>UserResponse_id = uuid, UserResponse_email = UserCreate_email d,
                 UserResponse_first_name = UserCreate_first_name d,
                 UserResponse_last_name = UserCreate_last_name d,
                 UserResponse_created_at = utcnow, UserResponse_is_active = True\<rparr>"
  have r: "register validate_email db d uuid utcnow gensalt = Inr (?view, db')"
    using v n h
    by (simp add: register_def Let_def insert_one_def UserResponse_of_def bson_User_def
          db'_def user_obj_def)
  have view: "map_sum id fst (register validate_email db
                                 (d\<lparr>UserCreate_password := password'\<rparr>) uuid utcnow gensalt')
               = map_sum id fst (register validate_email db d uuid utcnow gensalt)"
    if "length password' \<le> 72 \<and> 29 \<le> length gensalt' \<and> take 4 gensalt' = ''$2b$''"
  proof -
    from that have "hash_password gensalt' password' = Inr (take 29 gensalt' @ password')"
      by (simp add: hash_password_ok)
    with v n have "map_sum id fst (register validate_email db
                     (d\<lparr>UserCreate_password := password'\<rparr>) uuid utcnow gensalt') = Inr ?view"
      by (simp add: register_def Let_def UserResponse_of_def)
    then show ?thesis unfolding r by simp
  qed
  have dist: "distinct (map User_id (users db'))
               \<longleftrightarrow> distinct (map User_id (users db)) \<and> uuid \<notin> User_id ` set (users db)"
    by (auto simp: db'_def user_obj_def)
  have again: "UserCreate_email d2 = UserCreate_email d \<longrightarrow>
               register validate_email db' d2 uuid2 utcnow2 gensalt2
                 = Inl (HTTPException 400 ''Email already registered'')"
  proof
    assume e: "UserCreate_email d2 = UserCreate_email d"
    have "user_obj \<in> set (users db')" "User_email user_obj = UserCreate_email d2"
      by (simp_all add: db'_def user_obj_def e)
    then have "find_one (\<lambda>u. User_email u = UserCreate_email d2) (users db') \<noteq> None"
      unfolding find_one_None_iff by blast
    then obtain existing_user where
      "find_one (\<lambda>u. User_email u = UserCreate_email d2) (users db') = Some existing_user"
      by blast
    with v e show "register validate_email db' d2 uuid2 utcnow2 gensalt2
                 = Inl (HTTPException 400 ''Email already registered'')"
      by (simp add: register_def)
  qed
  have f: "User_id user_obj = uuid" "User_email user_obj = UserCreate_email d"
    "User_created_at user_obj = bson_datetime utcnow"
    "hash_password gensalt (UserCreate_password d) = Inr (User_password_hash user_obj)"
    using h by (simp_all add: user_obj_def)
  have view_imp: "length password' \<le> 72 \<and> 29 \<le> length gensalt' \<and> take 4 gensalt' = ''$2b$'' \<longrightarrow>
               map_sum id fst (register validate_email db
                                 (d\<lparr>UserCreate_password := password'\<rparr>) uuid utcnow gensalt')
               = map_sum id fst (register validate_email db d uuid utcnow gensalt)"
    using view by blast
  show "\<exists>user_obj db'.
           register validate_email db d uuid utcnow gensalt
             = Inr (\<lparr>UserResponse_id = uuid, UserResponse_email = UserCreate_email d,
                     UserResponse_first_name = UserCreate_first_name d,
                     UserResponse_last_name = UserCreate_last_name d,
                     UserResponse_created_at = utcnow, UserResponse_is_active = True\<rparr>, db')
         \<and> db' = db\<lparr>users := users db @ [user_obj]\<rparr>
         \<and> User_id user_obj = uuid \<and> User_email user_obj = UserCreate_email d
         \<and> User_created_at user_obj = bson_datetime utcnow
         \<and> hash_password gensalt (UserCreate_password d) = Inr (User_password_hash user_obj)
         \<and> (length password' \<le> 72 \<and> 29 \<le> length gensalt' \<and> take 4 gensalt' = ''$2b$'' \<longrightarrow>
               map_sum id fst (register validate_email db
                                 (d\<lparr>UserCreate_password := password'\<rparr>) uuid utcnow gensalt')
               = map_sum id fst (register validate_email db d uuid utcnow gensalt))
         \<and> (distinct (map User_id (users db'))
               \<longleftrightarrow> distinct (map User_id (users db)) \<and> uuid \<notin> User_id ` set (users db))
         \<and> (UserCreate_email d2 = UserCreate_email d \<longrightarrow>
               register validate_email db' d2 uuid2 utcnow2 gensalt2
                 = Inl (HTTPException 400 ''Email already registered''))"
    apply (rule exI [of _ user_obj])
    apply (rule exI [of _ db'])
    using r db'_def f view_imp dist again
    apply (intro conjI)
    apply assumption+
    done
qed

lemma register_john:
  "register toy_validate_email shop_db john_data ''u-john'' 5000123 john_salt
     = Inr (UserResponse_of john,
            shop_db\<lparr>users := [alice, bob, john\<lparr>User_created_at := 5000000\<rparr>]\<rparr>)"
  by (simp add: register_def find_one_def insert_one_def UserResponse_of_def Let_def
        hash_password_def bcrypt_hashpw_def bson_User_def bson_datetime_def
        toy_validate_email_def shop_db_def alice_def bob_def john_def john_data_def john_salt_def)

theorem register_outcomes_witness:
  "\<not> toy_validate_email (UserCreate_email (john_data\<lparr>UserCreate_email := ''not-an-email''\<rparr>))
   \<and> register toy_validate_email shop_db
         (john_data\<lparr>UserCreate_email := ''not-an-email''\<rparr>) ''u-john'' 5000123 john_salt
       = Inl (HTTPException 400 ''Invalid email format'')
   \<and> toy_validate_email (UserCreate_email (john_data\<lparr>UserCreate_email := ''alice@example.com''\<rparr>))
   \<and> register toy_validate_email shop_db
         (john_data\<lparr>UserCreate_email := ''alice@example.com''\<rparr>) ''u-john'' 5000123 john_salt
       = Inl (HTTPException 400 ''Email already registered'')
   \<and> toy_validate_email (UserCreate_email john_data)
   \<and> list_all (\<lambda>account. User_email account \<noteq> UserCreate_email john_data) (users shop_db)
   \<and> length (UserCreate_password john_data) \<le> 72
   \<and> 29 \<le> length john_salt \<and> take 4 john_salt = ''$2b$''
   \<and> register toy_validate_email shop_db john_data ''u-john'' 5000123 john_salt
       = Inr (UserResponse_of john,
              shop_db\<lparr>users := [alice, bob, john\<lparr>User_created_at := 5000000\<rparr>]\<rparr>)
   \<and> (\<exists>db'. register toy_validate_email shop_db john_data ''u-john'' 5000123 john_salt
               = Inr (UserResponse_of john, db')
            \<and> register toy_validate_email db' john_data ''u-john-2'' 6000456 john_salt
               = Inl (HTTPException 400 ''Email already registered''))"
proof -
  have bad: "\<not> toy_validate_email (UserCreate_email (john_data\<lparr>UserCreate_email := ''not-an-email''\<rparr>))"
    by (simp add: toy_validate_email_def)
  have ok1: "toy_validate_email (UserCreate_email (john_data\<lparr>UserCreate_email := ''alice@example.com''\<rparr>))"
    by (simp add: toy_validate_email_def)
  have taken: "\<exists>account\<in>set (users shop_db).
      User_email account = UserCreate_email (john_data\<lparr>UserCreate_email := ''alice@example.com''\<rparr>)"
    by (simp add: shop_db_def alice_def)
  have ok2: "toy_validate_email (UserCreate_email john_data)"
    by (simp add: toy_validate_email_def john_data_def)
  have free: "\<forall>account\<in>set (users shop_db). User_email account \<noteq> UserCreate_email john_data"
    by (simp add: shop_db_def alice_def bob_def john_data_def)
  have pw: "length (UserCreate_password john_data) \<le> 72"
    by (simp add: john_data_def)
  have salt: "29 \<le> length john_salt" "take 4 john_salt = ''$2b$''"
    by (simp_all add: john_salt_def)
  have view: "\<lparr>UserResponse_id = ''u-john'', UserResponse_email = UserCreate_email john_data,
               UserResponse_first_name = UserCreate_first_name john_data,
               UserResponse_last_name = UserCreate_last_name john_data,
               UserResponse_created_at = 5000123, UserResponse_is_active = True\<rparr>
             = UserResponse_of john"
    by (simp add: UserResponse_of_def john_def john_data_def)
  note reg = register_john
  note t1 = register_outcomes [where validate_email = toy_validate_email and db = shop_db
      and d = "john_data\<lparr>UserCreate_email := ''not-an-email''\<rparr>" and uuid = "''u-john''"
      and utcnow = 5000123 and gensalt = john_salt, THEN conjunct1, rule_format, OF bad]
  note t2 = register_outcomes [where validate_email = toy_validate_email and db = shop_db
      and d = "john_data\<lparr>UserCreate_email := ''alice@example.com''\<rparr>" and uuid = "''u-john''"
      and utcnow = 5000123 and gensalt = john_salt,
      THEN conjunct2, THEN conjunct1, rule_format, OF ok1, THEN iffD2, OF taken]
  have hyp: "toy_validate_email (UserCreate_email john_data)
        \<and> (\<forall>account\<in>set (users shop_db). User_email account \<noteq> UserCreate_email john_data)
        \<and> length (UserCreate_password john_data) \<le> 72
        \<and> 29 \<le> length john_salt \<and> take 4 john_salt = ''$2b$''"
    using ok2 free pw salt by blast
  note t3 = register_outcomes [where validate_email = toy_validate_email and db = shop_db
      and d = john_data and uuid = "''u-john''" and utcnow = 5000123 and gensalt = john_salt
      and ?d2.0 = john_data and ?uuid2.0 = "''u-john-2''" and ?utcnow2.0 = 6000456
      and ?gensalt2.0 = john_salt,
      THEN conjunct2, THEN conjunct2, THEN mp, OF hyp, unfolded view]
  have twice: "\<exists>db'. register toy_validate_email shop_db john_data ''u-john'' 5000123 john_salt
               = Inr (UserResponse_of john, db')
            \<and> register toy_validate_email db' john_data ''u-john-2'' 6000456 john_salt
               = Inl (HTTPException 400 ''Email already registered'')"
    using t3 by blast
  have free': "list_all (\<lambda>account. User_email account \<noteq> UserCreate_email john_data) (users shop_db)"
    using free by (simp add: list_all_iff)
  show ?thesis
    using bad t1 ok1 t2 ok2 free' pw salt reg twice by (intro conjI) assumption+
qed

text \<open>
  C6 as stated fails on both counts. With a password of 73 bytes and an email that is
  accepted and not taken, \<open>register\<close> raises \<^verbatim>\<open>ValueError\<close> and stores nothing. And when
  the generator returns the identifier of \<open>alice\<close>, the new account is stored under it.
\<close>

theorem register_counterexample:
  "length long_password = 73
   \<and> register toy_validate_email shop_db (john_data\<lparr>UserCreate_password := long_password\<rparr>)
        ''u-john'' 5000123 john_salt
       = Inl ValueError
   \<and> User_id alice = ''u-alice''
   \<and> register toy_validate_email shop_db john_data ''u-alice'' 5000123 john_salt
       = Inr (UserResponse_of (john\<lparr>User_id := ''u-alice''\<rparr>),
              shop_db\<lparr>users := [alice, bob,
                                  john\<lparr>User_id := ''u-alice'', User_created_at := 5000000\<rparr>]\<rparr>)"
  by (simp add: register_def find_one_def insert_one_def UserResponse_of_def Let_def
        hash_password_def bcrypt_hashpw_def bson_User_def bson_datetime_def long_password_def
        toy_validate_email_def shop_db_def alice_def bob_def john_def john_data_def john_salt_def)

end
